theory Spec2Isabelle
  imports Main
begin

section \<open>The URL shortener of src/App.jsx\<close>

text \<open>
  The program is one React file. Its state is the object \<open>urlMap\<close> of the component
  \<open>App\<close>; \<open>Home.handleSubmit\<close> validates a form and calls \<open>App.handleShorten\<close>,
  \<open>Redirector\<close> resolves a shortcode in an effect, and \<open>App.removeExpired\<close> deletes a key.

  Conventions of the embedding:
  \<^item> JavaScript strings are \<open>string\<close>; only characters of one byte are represented, so the
    line terminators U+2028 and U+2029 and the white space beyond U+00A0 are outside it.
  \<^item> JavaScript numbers are values of the type \<open>number\<close>: the doubles that are integers, the
    two infinities and \<open>NaN\<close>. These are all the numbers the program computes, and every
    operation rounds as IEEE 754 does. The two zeros are one value: the program only tests a
    zero for truthiness. \<open>Date.now()\<close> is an integer of at most 8640000000000000 in
    magnitude, which is a double.
  \<^item> \<open>Date.now()\<close>, \<open>window.location.origin\<close> and the random bytes that \<open>nanoid\<close>
    consumes are parameters of the functions that read them.
  \<^item> A state update \<open>setUrlMap(prev => ...)\<close> is a function from the old object to the new
    one; a thrown \<open>Error\<close> and a validation message are values of the type \<open>error\<close>.
  \<^item> The calls of \<open>logger\<close> only print and are left out.
\<close>

subsection \<open>Numbers\<close>

text \<open>\<open>Finite n\<close> is the double whose value is the integer \<open>n\<close>.\<close>

datatype number = Finite int | PosInfinity | NegInfinity | NaN

text \<open>The number of binary digits of a natural number.\<close>

fun bit_length :: "nat \<Rightarrow> nat" where
  "bit_length n = (if n = 0 then 0 else Suc (bit_length (n div 2)))"

declare bit_length.simps [simp del]

text \<open>The least magnitude that is too large for a double.\<close>

definition double_overflow :: nat where
  "double_overflow = 2 ^ 1024"

text \<open>
  The double nearest to an integer, as IEEE 754 rounds: the magnitude keeps its 53 leading
  binary digits, the rest is rounded to nearest, a tie to the even neighbour, and a result
  of \<open>2^1024\<close> or more is infinite. Below \<open>2^53\<close> nothing is rounded.
\<close>

definition round_to_double :: "int \<Rightarrow> number" where
  "round_to_double n =
     (let a = nat \<bar>n\<bar>;
          e = bit_length a - 53;
          q = a div 2 ^ e;
          r = a mod 2 ^ e;
          q' = (if 2 ^ e < 2 * r \<or> (2 * r = 2 ^ e \<and> odd q) then q + 1 else q);
          m = q' * 2 ^ e
      in if double_overflow \<le> m then (if n < 0 then NegInfinity else PosInfinity)
         else Finite (if n < 0 then - int m else int m))"

fun sign_of :: "number \<Rightarrow> int" where
  "sign_of (Finite a) = sgn a"
| "sign_of PosInfinity = 1"
| "sign_of NegInfinity = - 1"
| "sign_of NaN = 0"

text \<open>
  The operators \<open>*\<close>, \<open>+\<close> and \<open>>\<close> on numbers. The equations of each function are read in
  their order: a later one applies only where no earlier one does.
\<close>

fun js_times :: "number \<Rightarrow> number \<Rightarrow> number" where
  "js_times (Finite a) (Finite b) = round_to_double (a * b)"
| "js_times NaN y = NaN"
| "js_times x NaN = NaN"
| "js_times x y =
     (let s = sign_of x * sign_of y in
      if s = 0 then NaN else if 0 < s then PosInfinity else NegInfinity)"

fun js_plus :: "number \<Rightarrow> number \<Rightarrow> number" where
  "js_plus (Finite a) (Finite b) = round_to_double (a + b)"
| "js_plus NaN y = NaN"
| "js_plus x NaN = NaN"
| "js_plus PosInfinity NegInfinity = NaN"
| "js_plus NegInfinity PosInfinity = NaN"
| "js_plus (Finite a) y = y"
| "js_plus x y = x"

fun js_greater :: "number \<Rightarrow> number \<Rightarrow> bool" where
  "js_greater (Finite a) (Finite b) = (b < a)"
| "js_greater NaN y = False"
| "js_greater x NaN = False"
| "js_greater PosInfinity y = (y \<noteq> PosInfinity)"
| "js_greater x NegInfinity = (x \<noteq> NegInfinity)"
| "js_greater x y = False"

subsection \<open>The registry object\<close>

text \<open>\<open>{ originalUrl, expiry }\<close>, the value stored under a shortcode (line 206).\<close>

record url_record =
  originalUrl :: string
  expiry :: number

text \<open>The own properties of the object \<open>urlMap\<close> (line 185: \<open>useState({})\<close>).\<close>

type_synonym urlMap = "string \<rightharpoonup> url_record"

text \<open>
  \<open>urlMap\<close> is made by an object literal (lines 185, 204-207 and 215), so its prototype is
  \<open>Object.prototype\<close>, and a read \<open>urlMap[code]\<close> that finds no own property goes on to
  the properties of \<open>Object.prototype\<close>. These are its property names in ECMAScript
  (with Annex B, which browsers implement).
\<close>

definition object_prototype_keys :: "string list" where
  "object_prototype_keys =
     [''constructor'', ''hasOwnProperty'', ''isPrototypeOf'', ''propertyIsEnumerable'',
      ''toLocaleString'', ''toString'', ''valueOf'', ''__proto__'',
      ''__defineGetter__'', ''__defineSetter__'', ''__lookupGetter__'', ''__lookupSetter__'']"

text \<open>
  What a read \<open>urlMap[code]\<close> returns: \<open>undefined\<close>, a stored record, or a member
  inherited from \<open>Object.prototype\<close> (a function, or for \<open>__proto__\<close> the prototype
  object itself).
\<close>

datatype jsval = Undefined | Entry url_record | Inherited

definition get_prop :: "urlMap \<Rightarrow> string \<Rightarrow> jsval" where
  "get_prop urlMap code =
     (case urlMap code of
        Some r \<Rightarrow> Entry r
      | None \<Rightarrow> if code \<in> set object_prototype_keys then Inherited else Undefined)"

text \<open>Truthiness, as \<open>if (x)\<close>, \<open>!x\<close> and \<open>while (x)\<close> read it: objects and functions are truthy.\<close>

fun truthy :: "jsval \<Rightarrow> bool" where
  "truthy Undefined = False"
| "truthy (Entry r) = True"
| "truthy Inherited = True"

subsection \<open>Regular expressions and \<open>parseInt\<close>\<close>

text \<open>Without the flag \<open>s\<close>, a dot matches every character but a line terminator.\<close>

definition line_terminator :: "char \<Rightarrow> bool" where
  "line_terminator c = (c = CHR 0x0A \<or> c = CHR 0x0D)"

definition starts_with :: "string \<Rightarrow> string \<Rightarrow> bool" where
  "starts_with p s = (take (length p) s = p)"

text \<open>\<open>.+\<close> at the head of a string, in a pattern that is not anchored at its end.\<close>

fun dot_plus :: "string \<Rightarrow> bool" where
  "dot_plus [] = False"
| "dot_plus (c # cs) = (\<not> line_terminator c)"

text \<open>Line 28: \<open>originalUrl.match(/^https?:\/\/.+/)\<close> is not null.\<close>

definition matches_url :: "string \<Rightarrow> bool" where
  "matches_url s =
     ((starts_with ''http://'' s \<and> dot_plus (drop 7 s)) \<or>
      (starts_with ''https://'' s \<and> dot_plus (drop 8 s)))"

text \<open>The class \<open>[a-zA-Z0-9_-]\<close>.\<close>

definition code_char :: "char \<Rightarrow> bool" where
  "code_char c =
     (let n = (of_char c :: nat) in
      (97 \<le> n \<and> n \<le> 122) \<or> (65 \<le> n \<and> n \<le> 90) \<or> (48 \<le> n \<and> n \<le> 57) \<or>
      c = CHR ''_'' \<or> c = CHR ''-'')"

text \<open>Line 36: \<open>/^[a-zA-Z0-9_-]{4,20}$/.test(customCode)\<close>.\<close>

definition matches_shortcode :: "string \<Rightarrow> bool" where
  "matches_shortcode s = (4 \<le> length s \<and> length s \<le> 20 \<and> list_all code_char s)"

text \<open>
  \<open>parseInt(string)\<close> with no radix, as ECMAScript defines it: leading white space is
  dropped, then a sign is read, then a prefix \<open>0x\<close> or \<open>0X\<close> selects radix 16, then the
  longest run of digits of the radix is the integer, which is returned as the nearest
  double; with no digit the result is \<open>NaN\<close>. (ECMAScript lets an implementation read the
  decimal digits after the twentieth as zeros; the engines of the browsers do not.)
\<close>

definition white_space :: "char \<Rightarrow> bool" where
  "white_space c = (c \<in> set [CHR 0x09, CHR 0x0A, CHR 0x0B, CHR 0x0C, CHR 0x0D, CHR 0x20, CHR 0xA0])"

definition digit_of :: "char \<Rightarrow> nat option" where
  "digit_of c =
     (let n = (of_char c :: nat) in
      if 48 \<le> n \<and> n \<le> 57 then Some (n - 48)
      else if 97 \<le> n \<and> n \<le> 122 then Some (n - 87)
      else if 65 \<le> n \<and> n \<le> 90 then Some (n - 55)
      else None)"

definition is_digit :: "nat \<Rightarrow> char \<Rightarrow> bool" where
  "is_digit radix c = (case digit_of c of None \<Rightarrow> False | Some d \<Rightarrow> d < radix)"

definition digits_value :: "nat \<Rightarrow> string \<Rightarrow> int" where
  "digits_value radix ds =
     foldl (\<lambda>acc c. acc * int radix + int (case digit_of c of None \<Rightarrow> 0 | Some d \<Rightarrow> d)) 0 ds"

definition parseInt :: "string \<Rightarrow> number" where
  "parseInt inputString =
     (let s = dropWhile white_space inputString;
          sign = (if starts_with ''-'' s then - 1 else 1);
          s = (if starts_with ''-'' s \<or> starts_with ''+'' s then drop 1 s else s);
          hex = (starts_with ''0x'' s \<or> starts_with ''0X'' s);
          radix = (if hex then 16 else 10);
          s = (if hex then drop 2 s else s);
          z = takeWhile (is_digit radix) s
      in if z = [] then NaN else round_to_double (sign * digits_value radix z))"

subsection \<open>The component \<open>App\<close>\<close>

text \<open>
  The three failures of a creation, named as the specification names them. The program
  reports them as the messages of \<open>error_message\<close> (lines 29, 37 and 190).
\<close>

datatype error = InvalidUrl | InvalidShortcode | DuplicateShortcode

fun error_message :: "error \<Rightarrow> string" where
  "error_message InvalidUrl = ''URL must start with http:// or https://''"
| "error_message InvalidShortcode = ''Custom shortcode must be 4-20 chars alphanumeric/_/-''"
| "error_message DuplicateShortcode = ''Custom shortcode already exists''"

text \<open>
  \<open>nanoid\<close> is the library of that name, not code of the repository. As the library
  documents it, \<open>nanoid(size)\<close> returns \<open>size\<close> characters, each one of the 64 symbols
  \<open>A-Za-z0-9_-\<close> and each chosen by one random byte. \<open>rnd\<close> is the sequence of random
  bytes and \<open>i\<close> the number of bytes already consumed.
\<close>

definition urlAlphabet :: string where
  "urlAlphabet = ''useandom-26T198340PX75pxJACKVERYMINDBUSHWOLF_GQZbfghjklqvwyzrict''"

definition nanoid :: "nat \<Rightarrow> (nat \<Rightarrow> nat) \<Rightarrow> nat \<Rightarrow> string" where
  "nanoid n rnd i = map (\<lambda>k. urlAlphabet ! (rnd (i + k) mod 64)) [0..<n]"

text \<open>
  Lines 193-197, the loop \<open>do { newCode = nanoid(6) } while (urlMap[newCode])\<close>. The loop
  has no bound: where every draw is taken, it does not return, which is \<open>None\<close>.
\<close>

partial_function (option) generate :: "(nat \<Rightarrow> nat) \<Rightarrow> urlMap \<Rightarrow> nat \<Rightarrow> string option" where
  "generate rnd urlMap i =
     (let newCode = nanoid 6 rnd i in
      if truthy (get_prop urlMap newCode) then generate rnd urlMap (i + 6)
      else Some newCode)"

text \<open>Lines 188-198. The empty string is falsy, so it takes the branch of the loop.\<close>

definition createShortCode :: "(nat \<Rightarrow> nat) \<Rightarrow> urlMap \<Rightarrow> string \<Rightarrow> (error + string) option" where
  "createShortCode rnd urlMap customCode =
     (if customCode \<noteq> [] then
        (if truthy (get_prop urlMap customCode) then Some (Inl DuplicateShortcode)
         else Some (Inr customCode))
      else map_option Inr (generate rnd urlMap 0))"

text \<open>
  Line 202, \<open>Date.now() + validityMinutes * 60 * 1000\<close>: two products and a sum, each
  rounded. \<open>Date.now()\<close> is the integer \<open>now\<close>.
\<close>

abbreviation expiry_after :: "int \<Rightarrow> number \<Rightarrow> number" where
  "expiry_after now validityMinutes \<equiv>
     js_plus (Finite now) (js_times (js_times validityMinutes (Finite 60)) (Finite 1000))"

text \<open>
  Lines 200-211. The result is the short URL or the error thrown, with the registry after
  the call; \<open>None\<close> when the loop of \<open>createShortCode\<close> does not return.
\<close>

definition handleShorten ::
  "(nat \<Rightarrow> nat) \<Rightarrow> int \<Rightarrow> string \<Rightarrow> urlMap \<Rightarrow> string \<Rightarrow> string \<Rightarrow> number \<Rightarrow>
     ((error + string) \<times> urlMap) option" where
  "handleShorten rnd now origin urlMap url customCode validityMinutes =
     (case createShortCode rnd urlMap customCode of
        None \<Rightarrow> None
      | Some (Inl e) \<Rightarrow> Some (Inl e, urlMap)
      | Some (Inr shortcode) \<Rightarrow>
          (let expiry = expiry_after now validityMinutes in
           Some (Inr (origin @ ''/'' @ shortcode),
                 urlMap(shortcode \<mapsto> \<lparr>originalUrl = url, expiry = expiry\<rparr>))))"

text \<open>Lines 213-219.\<close>

definition removeExpired :: "string \<Rightarrow> urlMap \<Rightarrow> urlMap" where
  "removeExpired code prev = prev(code := None)"

subsection \<open>The component \<open>Home\<close>\<close>

text \<open>Line 44: \<open>parseInt(validity) || 30\<close>; \<open>NaN\<close> and zero are the falsy numbers.\<close>

definition validityMinutes :: "string \<Rightarrow> number" where
  "validityMinutes validity =
     (let parsed = parseInt validity in
      if parsed = NaN \<or> parsed = Finite 0 then Finite 30 else parsed)"

text \<open>
  Lines 24-55. \<open>Inl e\<close> is the message that \<open>setError\<close> shows (the handler's own, or that
  of the \<open>Error\<close> caught at line 51), \<open>Inr u\<close> the short URL that \<open>setShortUrl\<close> shows.
\<close>

definition handleSubmit ::
  "(nat \<Rightarrow> nat) \<Rightarrow> int \<Rightarrow> string \<Rightarrow> urlMap \<Rightarrow> string \<Rightarrow> string \<Rightarrow> string \<Rightarrow>
     ((error + string) \<times> urlMap) option" where
  "handleSubmit rnd now origin urlMap url customCode validity =
     (if \<not> matches_url url then Some (Inl InvalidUrl, urlMap)
      else if customCode \<noteq> [] \<and> \<not> matches_shortcode customCode
        then Some (Inl InvalidShortcode, urlMap)
      else handleShorten rnd now origin urlMap url customCode (validityMinutes validity))"

subsection \<open>The component \<open>Redirector\<close>\<close>

text \<open>
  The three messages of the view (lines 114, 120 and 126), and the state the effect acts
  on: the message shown, and the timers armed by \<open>setTimeout\<close>, each with the instant at
  which it fires and the value it assigns to \<open>window.location.href\<close> (\<open>None\<close> is
  \<open>undefined\<close>). The effect returns no cleanup function and the file never calls
  \<open>clearTimeout\<close>, so no operation takes a timer away.
\<close>

datatype display = Redirecting | NotFound | Expired

record redirector =
  message :: display
  timers :: "(int \<times> string option) list"

text \<open>Line 114: the state of a view just mounted.\<close>

definition Redirector_mount :: redirector where
  "Redirector_mount = \<lparr>message = Redirecting, timers = []\<rparr>"

text \<open>
  Lines 116-137, one run of the effect, at the instant \<open>now\<close> for the parameter \<open>code\<close>.
  For an inherited member \<open>record.expiry\<close> is \<open>undefined\<close>, and \<open>Date.now() > undefined\<close>
  is false.
\<close>

definition Redirector_effect ::
  "int \<Rightarrow> string \<Rightarrow> urlMap \<Rightarrow> redirector \<Rightarrow> redirector \<times> urlMap" where
  "Redirector_effect now code urlMap v =
     (case get_prop urlMap code of
        Undefined \<Rightarrow> (v\<lparr>message := NotFound\<rparr>, urlMap)
      | Entry r \<Rightarrow>
          if js_greater (Finite now) (expiry r)
          then (v\<lparr>message := Expired\<rparr>, removeExpired code urlMap)
          else (v\<lparr>timers := timers v @ [(now + 1000, Some (originalUrl r))]\<rparr>, urlMap)
      | Inherited \<Rightarrow> (v\<lparr>timers := timers v @ [(now + 1000, None)]\<rparr>, urlMap))"

text \<open>
  Whether a run of the effect reaches line 128. The call \<open>removeExpired(code)\<close> is a
  \<open>setUrlMap\<close>, after which \<open>App\<close> renders again with a new object \<open>urlMap\<close> and a new
  function \<open>removeExpired\<close>. Both are dependencies of the effect (line 137).
\<close>

definition calls_removeExpired :: "int \<Rightarrow> string \<Rightarrow> urlMap \<Rightarrow> bool" where
  "calls_removeExpired now code urlMap =
     (case get_prop urlMap code of
        Entry r \<Rightarrow> js_greater (Finite now) (expiry r)
      | Undefined \<Rightarrow> False
      | Inherited \<Rightarrow> False)"

text \<open>
  Navigating to \<open>/:code\<close>: the view is mounted and its effect runs, at the instant
  \<open>now\<close>. Where that run has called \<open>removeExpired\<close>, its dependencies have changed and
  React runs the effect again, at the instant \<open>later\<close>, on the new registry and with the
  message the first run has set. The second run finds no record, so it does not call
  \<open>removeExpired\<close> and the view has settled (lemma \<open>second_run_settles\<close>). The other
  branches change no dependency: \<open>setMessage\<close> is state of the view itself.
\<close>

definition resolve :: "int \<Rightarrow> int \<Rightarrow> string \<Rightarrow> urlMap \<Rightarrow> redirector \<times> urlMap" where
  "resolve now later code urlMap =
     (let (v, urlMap') = Redirector_effect now code urlMap Redirector_mount in
      if calls_removeExpired now code urlMap then Redirector_effect later code urlMap' v
      else (v, urlMap'))"

text \<open>
  What the browser does with the armed timers when the clock reaches \<open>t\<close>: the first
  timer that is due runs its callback, which assigns its target to
  \<open>window.location.href\<close> (lines 134-136) and so leaves the page. \<open>None\<close> when no
  timer is due yet. The timers are listed in the order in which they were armed; all have
  the delay of 1000 ms, so with a clock that does not run backwards this is the order in
  which they fall due.
\<close>

fun navigated :: "int \<Rightarrow> (int \<times> string option) list \<Rightarrow> string option option" where
  "navigated t [] = None"
| "navigated t ((due, target) # ts) = (if due \<le> t then Some target else navigated t ts)"

subsection \<open>Concrete inputs\<close>

text \<open>
  A source of random bytes whose \<open>k\<close>-th byte is \<open>k\<close>, and a registry with one record
  stored under the first code that \<open>nanoid\<close> draws from it.
\<close>

definition counting :: "nat \<Rightarrow> nat" where
  "counting k = k"

definition registry0 :: urlMap where
  "registry0 = Map.empty(''useand'' \<mapsto> \<lparr>originalUrl = ''https://a.com'', expiry = Finite 5\<rparr>)"

text \<open>A registry with two records that are valid until the instant 10000.\<close>

definition registry_ab :: urlMap where
  "registry_ab =
     Map.empty(''aaaa'' \<mapsto> \<lparr>originalUrl = ''https://a.com'', expiry = Finite 10000\<rparr>,
               ''bbbb'' \<mapsto> \<lparr>originalUrl = ''https://b.com'', expiry = Finite 10000\<rparr>)"

section \<open>Properties\<close>

subsection \<open>Rounding\<close>

lemma bit_length_le: "n < 2 ^ k \<Longrightarrow> bit_length n \<le> k"
proof (induction k arbitrary: n)
  case 0
  then show ?case by (simp add: bit_length.simps)
next
  case (Suc k)
  show ?case
  proof (cases "n = 0")
    case True
    then show ?thesis by (simp add: bit_length.simps)
  next
    case False
    from Suc.prems have "n div 2 < 2 ^ k" by simp
    then have "bit_length (n div 2) \<le> k" by (rule Suc.IH)
    with False show ?thesis by (subst bit_length.simps) simp
  qed
qed

lemma bit_length_ge: "2 ^ k \<le> n \<Longrightarrow> Suc k \<le> bit_length n"
proof (induction k arbitrary: n)
  case 0
  then show ?case by (subst bit_length.simps) simp
next
  case (Suc k)
  from Suc.prems have "2 ^ k \<le> n div 2" by simp
  then have "Suc k \<le> bit_length (n div 2)" by (rule Suc.IH)
  moreover have "0 < (2::nat) ^ Suc k" by simp
  with Suc.prems have "n \<noteq> 0" by linarith
  ultimately show ?case by (subst bit_length.simps) simp
qed

lemma bit_length_eq: "2 ^ k \<le> n \<Longrightarrow> n < 2 ^ Suc k \<Longrightarrow> bit_length n = Suc k"
  using bit_length_le [of n "Suc k"] bit_length_ge [of k n] by simp

lemma below_double_overflow: "k \<le> 1024 \<Longrightarrow> a < 2 ^ k \<Longrightarrow> \<not> double_overflow \<le> a"
proof -
  assume "k \<le> 1024" and "a < 2 ^ k"
  moreover from \<open>k \<le> 1024\<close> have "(2::nat) ^ k \<le> 2 ^ 1024"
    by (intro power_increasing) simp_all
  ultimately have "a < double_overflow"
    unfolding double_overflow_def by (simp only: less_le_trans)
  then show ?thesis
    by (simp only: not_le)
qed

text \<open>Below \<open>2^53\<close> nothing is rounded.\<close>

lemma round_to_double_exact:
  assumes "\<bar>n\<bar> < 2 ^ 53"
  shows "round_to_double n = Finite n"
proof -
  from assms have small: "nat \<bar>n\<bar> < 2 ^ 53"
    by (simp add: nat_less_iff)
  then have "bit_length (nat \<bar>n\<bar>) \<le> 53"
    by (rule bit_length_le)
  then have e: "bit_length (nat \<bar>n\<bar>) - 53 = 0"
    by simp
  from small have "\<not> double_overflow \<le> nat \<bar>n\<bar>"
    by (intro below_double_overflow [of 53]) simp_all
  then have "round_to_double n = Finite (if n < 0 then - int (nat \<bar>n\<bar>) else int (nat \<bar>n\<bar>))"
    unfolding round_to_double_def Let_def e by simp
  then show ?thesis
    by simp
qed

text \<open>Line 202 is exact where the instant and the validity are small enough.\<close>

lemma expiry_after_exact:
  assumes "\<bar>now\<bar> + \<bar>n\<bar> * 60000 < 2 ^ 53"
  shows "expiry_after now (Finite n) = Finite (now + n * 60000)"
proof -
  have "\<bar>n * 60\<bar> \<le> \<bar>n\<bar> * 60000"
    by (simp add: abs_mult)
  with assms have a: "\<bar>n * 60\<bar> < 2 ^ 53"
    by linarith
  have "\<bar>n * 60 * 1000\<bar> = \<bar>n\<bar> * 60000"
    by (simp add: abs_mult)
  with assms have b: "\<bar>n * 60 * 1000\<bar> < 2 ^ 53"
    by linarith
  have "\<bar>now + n * 60 * 1000\<bar> \<le> \<bar>now\<bar> + \<bar>n\<bar> * 60000"
    using \<open>\<bar>n * 60 * 1000\<bar> = \<bar>n\<bar> * 60000\<close> by linarith
  with assms have c: "\<bar>now + n * 60 * 1000\<bar> < 2 ^ 53"
    by linarith
  have "js_times (Finite n) (Finite 60) = Finite (n * 60)"
    by (simp only: js_times.simps round_to_double_exact [OF a])
  moreover have "js_times (Finite (n * 60)) (Finite 1000) = Finite (n * 60 * 1000)"
    by (simp only: js_times.simps round_to_double_exact [OF b])
  moreover have "js_plus (Finite now) (Finite (n * 60 * 1000)) = Finite (now + n * 60 * 1000)"
    by (simp only: js_plus.simps round_to_double_exact [OF c])
  ultimately have "expiry_after now (Finite n) = Finite (now + n * 60 * 1000)"
    by (simp only:)
  then show ?thesis
    by simp
qed

lemma round_example_1: "round_to_double 9007199254740993 = Finite 9007199254740992"
proof -
  have "bit_length 9007199254740993 = 54"
    using bit_length_eq [of 53 9007199254740993] by simp
  moreover have "\<not> double_overflow \<le> 9007199254740992"
    by (intro below_double_overflow [of 64]) simp_all
  ultimately show ?thesis
    by (simp add: round_to_double_def Let_def)
qed

lemma round_example_2: "round_to_double 9007199254741020 = Finite 9007199254741020"
proof -
  have "bit_length 9007199254741020 = 54"
    using bit_length_eq [of 53 9007199254741020] by simp
  moreover have "\<not> double_overflow \<le> 9007199254741020"
    by (intro below_double_overflow [of 64]) simp_all
  ultimately show ?thesis
    by (simp add: round_to_double_def Let_def)
qed

lemma round_example_3: "round_to_double 9007199254741020000 = Finite 9007199254741019648"
proof -
  have "bit_length 9007199254741020000 = 63"
    using bit_length_eq [of 62 9007199254741020000] by simp
  moreover have "\<not> double_overflow \<le> 9007199254741019648"
    by (intro below_double_overflow [of 64]) simp_all
  ultimately show ?thesis
    by (simp add: round_to_double_def Let_def)
qed

lemma round_example_4: "round_to_double 9007199254741020648 = Finite 9007199254741020672"
proof -
  have "bit_length 9007199254741020648 = 63"
    using bit_length_eq [of 62 9007199254741020648] by simp
  moreover have "\<not> double_overflow \<le> 9007199254741020672"
    by (intro below_double_overflow [of 64]) simp_all
  ultimately show ?thesis
    by (simp add: round_to_double_def Let_def)
qed

subsection \<open>Reads of the registry and the generation loop\<close>

lemma length_nanoid: "length (nanoid n rnd i) = n"
  by (simp add: nanoid_def)

lemma prototype_key_length: "code \<in> set object_prototype_keys \<Longrightarrow> length code \<noteq> 6"
  by (auto simp: object_prototype_keys_def)

text \<open>A code of six characters is never inherited: reading it is truthy only for a stored record.\<close>

lemma truthy_get_prop_six: "length code = 6 \<Longrightarrow> truthy (get_prop urlMap code) = (urlMap code \<noteq> None)"
  using prototype_key_length [of code]
  by (auto simp: get_prop_def split: option.splits)

lemma truthy_get_prop_own: "urlMap code = Some r \<Longrightarrow> truthy (get_prop urlMap code)"
  by (simp add: get_prop_def)

text \<open>Whatever the loop returns is one of the draws, and no record is stored under it.\<close>

lemma generate_Some:
  assumes "generate rnd urlMap i = Some c"
  shows "\<exists>k. c = nanoid 6 rnd (i + 6 * k) \<and> urlMap c = None"
  using assms
proof (induction rule: generate.raw_induct[rotated 1, consumes 1])
  case (1 generate' rnd urlMap i c)
  show ?case
  proof (cases "truthy (get_prop urlMap (nanoid 6 rnd i))")
    case True
    with 1(2) have "generate' rnd urlMap (i + 6) = Some c"
      by (simp add: Let_def)
    from 1(1) [OF this] obtain k where "c = nanoid 6 rnd (i + 6 + 6 * k)" "urlMap c = None"
      by blast
    then show ?thesis
      by (intro exI [of _ "Suc k"]) (simp add: add.assoc)
  next
    case False
    with 1(2) have "c = nanoid 6 rnd i" by (simp add: Let_def)
    with False show ?thesis
      by (intro exI [of _ 0]) (simp add: truthy_get_prop_six length_nanoid)
  qed
qed

text \<open>The loop returns the first draw under which no record is stored.\<close>

lemma generate_first:
  "urlMap (nanoid 6 rnd (i + 6 * k)) = None \<Longrightarrow>
   (\<And>j. j < k \<Longrightarrow> urlMap (nanoid 6 rnd (i + 6 * j)) \<noteq> None) \<Longrightarrow>
   generate rnd urlMap i = Some (nanoid 6 rnd (i + 6 * k))"
proof (induction k arbitrary: i)
  case 0
  then show ?case
    by (subst generate.simps) (simp add: truthy_get_prop_six length_nanoid)
next
  case (Suc k)
  have taken: "urlMap (nanoid 6 rnd i) \<noteq> None"
    using Suc.prems(2) [of 0] by simp
  have "generate rnd urlMap (i + 6) = Some (nanoid 6 rnd (i + 6 + 6 * k))"
  proof (rule Suc.IH)
    show "urlMap (nanoid 6 rnd (i + 6 + 6 * k)) = None"
      using Suc.prems(1) by (simp add: add.assoc)
    show "urlMap (nanoid 6 rnd (i + 6 + 6 * j)) \<noteq> None" if "j < k" for j
      using Suc.prems(2) [of "Suc j"] that by (simp add: add.assoc)
  qed
  with taken show ?case
    by (subst generate.simps) (simp add: truthy_get_prop_six length_nanoid add.assoc)
qed

lemma generate_returns:
  assumes "urlMap (nanoid 6 rnd (i + 6 * k)) = None"
  shows "\<exists>c. generate rnd urlMap i = Some c"
proof -
  define k0 where "k0 = (LEAST j. urlMap (nanoid 6 rnd (i + 6 * j)) = None)"
  have fresh: "urlMap (nanoid 6 rnd (i + 6 * k0)) = None"
    unfolding k0_def using assms by (rule LeastI)
  have "urlMap (nanoid 6 rnd (i + 6 * j)) \<noteq> None" if "j < k0" for j
    using that not_less_Least unfolding k0_def by blast
  with fresh have "generate rnd urlMap i = Some (nanoid 6 rnd (i + 6 * k0))"
    by (rule generate_first)
  then show ?thesis ..
qed

text \<open>The timers that are due after more timers were armed.\<close>

lemma navigated_append:
  "navigated t ts = Some target \<Longrightarrow> navigated t (ts @ us) = Some target"
  by (induction ts) (auto split: if_splits)

subsection \<open>Runs of the effect\<close>

text \<open>
  A run that calls \<open>removeExpired\<close> shows \<open>Expired\<close> and deletes the code; no other run
  touches the registry.
\<close>

lemma Redirector_effect_removes:
  "calls_removeExpired now code urlMap \<Longrightarrow>
   Redirector_effect now code urlMap v = (v\<lparr>message := Expired\<rparr>, removeExpired code urlMap)"
  by (auto simp: calls_removeExpired_def Redirector_effect_def split: jsval.splits)

lemma Redirector_effect_keeps:
  "\<not> calls_removeExpired now code urlMap \<Longrightarrow> snd (Redirector_effect now code urlMap v) = urlMap"
  by (auto simp: calls_removeExpired_def Redirector_effect_def split: jsval.splits)

text \<open>After a removal no record is left to expire: the second run is the last.\<close>

lemma second_run_settles: "\<not> calls_removeExpired later code (removeExpired code urlMap)"
  by (simp add: calls_removeExpired_def get_prop_def removeExpired_def)

lemma resolve_once:
  "\<not> calls_removeExpired now code urlMap \<Longrightarrow>
   resolve now later code urlMap = Redirector_effect now code urlMap Redirector_mount"
  by (simp add: resolve_def split: prod.splits)

lemma resolve_twice:
  "calls_removeExpired now code urlMap \<Longrightarrow>
   resolve now later code urlMap =
     Redirector_effect later code (removeExpired code urlMap) (Redirector_mount\<lparr>message := Expired\<rparr>)"
  by (simp add: resolve_def Redirector_effect_removes)

subsection \<open>The outcomes of \<open>handleSubmit\<close>\<close>

text \<open>
  A custom code that matches the pattern, is not stored and is not the name of a member of
  \<open>Object.prototype\<close> is taken as it is.
\<close>

lemma handleSubmit_custom_fresh:
  assumes "matches_url url" "matches_shortcode c" "urlMap c = None" "c \<notin> set object_prototype_keys"
  shows "handleSubmit rnd now origin urlMap url c validity =
           Some (Inr (origin @ ''/'' @ c),
                 urlMap(c \<mapsto> \<lparr>originalUrl = url,
                   expiry = expiry_after now (validityMinutes validity)\<rparr>))"
proof -
  from assms(2) have "c \<noteq> []"
    by (auto simp: matches_shortcode_def)
  moreover from assms(3,4) have "\<not> truthy (get_prop urlMap c)"
    by (simp add: get_prop_def)
  ultimately show ?thesis
    using assms(1,2) by (simp add: handleSubmit_def handleShorten_def createShortCode_def)
qed

text \<open>
  A custom code that matches the pattern and is stored is refused, and the registry is
  unchanged.
\<close>

lemma handleSubmit_custom_taken:
  assumes "matches_url url" "matches_shortcode c" "urlMap c = Some r"
  shows "handleSubmit rnd now origin urlMap url c validity = Some (Inl DuplicateShortcode, urlMap)"
proof -
  from assms(2) have "c \<noteq> []"
    by (auto simp: matches_shortcode_def)
  with assms show ?thesis
    by (simp add: handleSubmit_def handleShorten_def createShortCode_def truthy_get_prop_own)
qed

text \<open>
  A creation that succeeds stores one record, under the code that \<open>createShortCode\<close>
  returned.
\<close>

lemma handleSubmit_Inr:
  assumes "handleSubmit rnd now origin urlMap url customCode validity = Some (Inr shortUrl, urlMap')"
  shows "\<exists>code. createShortCode rnd urlMap customCode = Some (Inr code) \<and>
           shortUrl = origin @ ''/'' @ code \<and>
           urlMap' = urlMap(code \<mapsto>
             \<lparr>originalUrl = url, expiry = expiry_after now (validityMinutes validity)\<rparr>)"
  using assms
  by (auto simp: handleSubmit_def handleShorten_def Let_def split: if_splits option.splits sum.splits)

text \<open>
  Whether a creation fails, and the short URL it returns, do not depend on the validity.
\<close>

lemma handleSubmit_outcome:
  "map_option fst (handleSubmit rnd now origin urlMap url customCode validity) =
     (if \<not> matches_url url then Some (Inl InvalidUrl)
      else if customCode \<noteq> [] \<and> \<not> matches_shortcode customCode then Some (Inl InvalidShortcode)
      else map_option (map_sum id (\<lambda>code. origin @ ''/'' @ code)) (createShortCode rnd urlMap customCode))"
  by (auto simp: handleSubmit_def handleShorten_def Let_def split: option.splits sum.splits)

text \<open>
  With a valid URL and no custom code, the creation is the loop followed by the insertion.
\<close>

lemma handleSubmit_generated:
  assumes "matches_url url"
  shows "handleSubmit rnd now origin urlMap url '''' validity =
     (case generate rnd urlMap 0 of
        None \<Rightarrow> None
      | Some code \<Rightarrow>
          Some (Inr (origin @ ''/'' @ code),
                urlMap(code \<mapsto>
                  \<lparr>originalUrl = url, expiry = expiry_after now (validityMinutes validity)\<rparr>)))"
  using assms
  by (simp add: handleSubmit_def handleShorten_def createShortCode_def split: option.splits)

text \<open>The default of line 44, read off \<open>parseInt\<close>.\<close>

lemma validityMinutes_default:
  "parseInt validity = NaN \<or> parseInt validity = Finite 0 \<Longrightarrow> validityMinutes validity = Finite 30"
  by (auto simp: validityMinutes_def)

lemma validityMinutes_parsed:
  "parseInt validity = Finite n \<Longrightarrow> n \<noteq> 0 \<Longrightarrow> validityMinutes validity = Finite n"
  by (simp add: validityMinutes_def)

subsection \<open>Evaluations at the concrete inputs\<close>

lemma matches_url_example: "matches_url ''https://a.com''"
  by (simp add: matches_url_def starts_with_def line_terminator_def)

lemma matches_url_example_com: "matches_url ''https://example.com''"
  by (simp add: matches_url_def starts_with_def line_terminator_def)

lemma not_matches_url_example: "\<not> matches_url ''ftp://bad''"
  by (simp add: matches_url_def starts_with_def)

lemma matches_shortcode_mycode: "matches_shortcode ''mycode''"
  by (simp add: matches_shortcode_def code_char_def)

lemma mycode_not_inherited: "''mycode'' \<notin> set object_prototype_keys"
  by (simp add: object_prototype_keys_def)

lemma matches_shortcode_abcd: "matches_shortcode ''abcd''"
  by (simp add: matches_shortcode_def code_char_def)

lemma abcd_not_inherited: "''abcd'' \<notin> set object_prototype_keys"
  by (simp add: object_prototype_keys_def)

lemma parseInt_minus_5: "parseInt ''-5'' = Finite (- 5)"
  by (simp add: parseInt_def starts_with_def white_space_def is_digit_def digit_of_def
      digits_value_def round_to_double_exact)

lemma parseInt_empty: "parseInt '''' = NaN"
  by (simp add: parseInt_def starts_with_def)

lemma parseInt_1: "parseInt ''1'' = Finite 1"
  by (simp add: parseInt_def starts_with_def white_space_def is_digit_def digit_of_def
      digits_value_def round_to_double_exact)

lemma parseInt_30: "parseInt ''30'' = Finite 30"
  by (simp add: parseInt_def starts_with_def white_space_def is_digit_def digit_of_def
      digits_value_def round_to_double_exact)

text \<open>Two inputs of sixteen and fifteen digits: the first is rounded by \<open>parseInt\<close> itself.\<close>

lemma parseInt_2_53_plus_1: "parseInt ''9007199254740993'' = Finite 9007199254740992"
  by (simp add: parseInt_def starts_with_def white_space_def is_digit_def digit_of_def
      digits_value_def round_example_1)

lemma parseInt_large: "parseInt ''150119987579017'' = Finite 150119987579017"
  by (simp add: parseInt_def starts_with_def white_space_def is_digit_def digit_of_def
      digits_value_def round_to_double_exact)

lemma validityMinutes_1: "validityMinutes ''1'' = Finite 1"
  by (simp add: validityMinutes_parsed [OF parseInt_1])

lemma validityMinutes_30: "validityMinutes ''30'' = Finite 30"
  by (simp add: validityMinutes_parsed [OF parseInt_30])

lemma nanoid_counting_0: "nanoid 6 counting 0 = ''useand''"
  by (simp add: nanoid_def counting_def urlAlphabet_def upt_rec)

lemma nanoid_counting_6: "nanoid 6 counting 6 = ''om-26T''"
  by (simp add: nanoid_def counting_def urlAlphabet_def upt_rec)

lemma generate_counting_registry0: "generate counting registry0 0 = Some ''om-26T''"
proof -
  have "generate counting registry0 0 = Some (nanoid 6 counting (0 + 6 * 1))"
  proof (rule generate_first)
    show "registry0 (nanoid 6 counting (0 + 6 * 1)) = None"
      by (simp add: nanoid_counting_6 registry0_def)
    show "registry0 (nanoid 6 counting (0 + 6 * j)) \<noteq> None" if "j < 1" for j
      using that by (simp add: nanoid_counting_0 registry0_def)
  qed
  then show ?thesis
    by (simp add: nanoid_counting_6)
qed

subsection \<open>Removal\<close>

text \<open>
  C7: \<open>removeExpired\<close> is idempotent. Removing a code twice leaves the registry as removing
  it once does, and removing a code that is absent leaves the registry as it was. The
  function is total: it has no failing branch.
\<close>

theorem removeExpired_idempotent:
  "removeExpired code (removeExpired code urlMap) = removeExpired code urlMap \<and>
   (urlMap code = None \<longrightarrow> removeExpired code urlMap = urlMap)"
  by (auto simp: removeExpired_def)

theorem removeExpired_idempotent_witness:
  "removeExpired ''mycode'' (removeExpired ''mycode'' registry0) = removeExpired ''mycode'' registry0 \<and>
   registry0 ''mycode'' = None \<and> removeExpired ''mycode'' registry0 = registry0"
proof -
  have absent: "registry0 ''mycode'' = None"
    by (simp add: registry0_def)
  with removeExpired_idempotent [of "''mycode''" registry0] show ?thesis
    by simp
qed

subsection \<open>Validation in \<open>Home.handleSubmit\<close>\<close>

text \<open>
  C3: a URL that does not match \<open>^https?://.+\<close> is refused with \<open>InvalidUrl\<close> and the
  registry is unchanged, whatever the other arguments are; and no failure of a creation
  changes the registry.
\<close>

theorem invalid_url_rejected:
  "(\<not> matches_url url \<longrightarrow>
      handleSubmit rnd now origin urlMap url customCode validity = Some (Inl InvalidUrl, urlMap)) \<and>
   (handleSubmit rnd now origin urlMap url customCode validity = Some (Inl e, urlMap') \<longrightarrow>
      urlMap' = urlMap)"
  by (auto simp: handleSubmit_def handleShorten_def Let_def split: if_splits option.splits sum.splits)

theorem invalid_url_rejected_witness:
  "\<not> matches_url ''ftp://bad'' \<and>
   handleSubmit counting 0 ''http://localhost:3000'' registry0 ''ftp://bad'' '''' ''30'' =
     Some (Inl InvalidUrl, registry0)"
proof -
  have bad: "\<not> matches_url ''ftp://bad''"
    by (rule not_matches_url_example)
  from invalid_url_rejected [of "''ftp://bad''" counting 0 "''http://localhost:3000''" registry0 "''''" "''30''"]
    bad show ?thesis
    by simp
qed

text \<open>
  C9: with a valid URL, a custom code that is given (not the empty string) and does not
  match \<open>^[a-zA-Z0-9_-]{4,20}$\<close> is refused with \<open>InvalidShortcode\<close> and the registry is
  unchanged.
\<close>

theorem invalid_shortcode_rejected:
  "matches_url url \<Longrightarrow> customCode \<noteq> [] \<Longrightarrow> \<not> matches_shortcode customCode \<Longrightarrow>
   handleSubmit rnd now origin urlMap url customCode validity = Some (Inl InvalidShortcode, urlMap)"
  by (simp add: handleSubmit_def)

theorem invalid_shortcode_rejected_witness:
  "matches_url ''https://a.com'' \<and> ''my code'' \<noteq> [] \<and> \<not> matches_shortcode ''my code'' \<and>
   handleSubmit counting 0 ''http://localhost:3000'' registry0 ''https://a.com'' ''my code'' ''30'' =
     Some (Inl InvalidShortcode, registry0)"
proof -
  have bad: "\<not> matches_shortcode ''my code''"
    by (simp add: matches_shortcode_def code_char_def)
  have given: "''my code'' \<noteq> []"
    by simp
  from invalid_shortcode_rejected [OF matches_url_example given bad] matches_url_example bad
  show ?thesis by simp
qed

text \<open>
  C2, as amended: the record that a creation stores expires at the number that line 202
  computes from the creation instant and \<open>parseInt(validity) || 30\<close>. Where the instant and
  the minutes are small enough for that arithmetic to be exact (\<open>|now| + |n| * 60000\<close>
  below \<open>2^53\<close>), this is the creation instant plus 60000 ms times the minutes, which are 30
  when \<open>parseInt\<close> of the submitted validity is \<open>NaN\<close> or zero, and the parsed value itself
  otherwise, a negative one included. No validity makes a creation fail: the outcome but
  for the expiry is the same for any two validities.
\<close>

theorem expiry_of_created_record:
  "(handleSubmit rnd now origin urlMap url customCode validity = Some (Inr shortUrl, urlMap') \<longrightarrow>
      (\<exists>code. shortUrl = origin @ ''/'' @ code \<and>
         urlMap' = urlMap(code \<mapsto>
           \<lparr>originalUrl = url, expiry = expiry_after now (validityMinutes validity)\<rparr>) \<and>
         ((parseInt validity = NaN \<or> parseInt validity = Finite 0) \<and>
            \<bar>now\<bar> + 30 * 60000 < 2 ^ 53 \<longrightarrow>
            urlMap' = urlMap(code \<mapsto>
              \<lparr>originalUrl = url, expiry = Finite (now + 30 * 60000)\<rparr>)) \<and>
         (\<forall>n. parseInt validity = Finite n \<and> n \<noteq> 0 \<and> \<bar>now\<bar> + \<bar>n\<bar> * 60000 < 2 ^ 53 \<longrightarrow>
            urlMap' = urlMap(code \<mapsto>
              \<lparr>originalUrl = url, expiry = Finite (now + n * 60000)\<rparr>)))) \<and>
   map_option fst (handleSubmit rnd now origin urlMap url customCode validity) =
     map_option fst (handleSubmit rnd now origin urlMap url customCode validity2)"
proof (intro conjI impI)
  assume "handleSubmit rnd now origin urlMap url customCode validity = Some (Inr shortUrl, urlMap')"
  from handleSubmit_Inr [OF this] obtain code where
    code: "shortUrl = origin @ ''/'' @ code"
      "urlMap' = urlMap(code \<mapsto>
         \<lparr>originalUrl = url, expiry = expiry_after now (validityMinutes validity)\<rparr>)"
    by blast
  have default: "urlMap' = urlMap(code \<mapsto> \<lparr>originalUrl = url, expiry = Finite (now + 30 * 60000)\<rparr>)"
    if "(parseInt validity = NaN \<or> parseInt validity = Finite 0) \<and> \<bar>now\<bar> + 30 * 60000 < 2 ^ 53"
  proof -
    from that have "validityMinutes validity = Finite 30"
      by (intro validityMinutes_default) simp
    moreover from that have "expiry_after now (Finite 30) = Finite (now + 30 * 60000)"
      by (intro expiry_after_exact) simp
    ultimately show ?thesis
      using code(2) by simp
  qed
  have parsed: "urlMap' = urlMap(code \<mapsto> \<lparr>originalUrl = url, expiry = Finite (now + n * 60000)\<rparr>)"
    if "parseInt validity = Finite n \<and> n \<noteq> 0 \<and> \<bar>now\<bar> + \<bar>n\<bar> * 60000 < 2 ^ 53" for n
  proof -
    from that have "validityMinutes validity = Finite n"
      by (intro validityMinutes_parsed) simp_all
    moreover from that have "expiry_after now (Finite n) = Finite (now + n * 60000)"
      by (intro expiry_after_exact) simp
    ultimately show ?thesis
      using code(2) by simp
  qed
  show "\<exists>code. shortUrl = origin @ ''/'' @ code \<and>
         urlMap' = urlMap(code \<mapsto>
           \<lparr>originalUrl = url, expiry = expiry_after now (validityMinutes validity)\<rparr>) \<and>
         ((parseInt validity = NaN \<or> parseInt validity = Finite 0) \<and>
            \<bar>now\<bar> + 30 * 60000 < 2 ^ 53 \<longrightarrow>
            urlMap' = urlMap(code \<mapsto>
              \<lparr>originalUrl = url, expiry = Finite (now + 30 * 60000)\<rparr>)) \<and>
         (\<forall>n. parseInt validity = Finite n \<and> n \<noteq> 0 \<and> \<bar>now\<bar> + \<bar>n\<bar> * 60000 < 2 ^ 53 \<longrightarrow>
            urlMap' = urlMap(code \<mapsto>
              \<lparr>originalUrl = url, expiry = Finite (now + n * 60000)\<rparr>))"
  proof (intro exI [of _ code] conjI allI impI)
    show "shortUrl = origin @ ''/'' @ code"
      by (rule code(1))
    show "urlMap' = urlMap(code \<mapsto>
        \<lparr>originalUrl = url, expiry = expiry_after now (validityMinutes validity)\<rparr>)"
      by (rule code(2))
  qed (rule default, assumption, rule parsed, assumption)
next
  show "map_option fst (handleSubmit rnd now origin urlMap url customCode validity) =
     map_option fst (handleSubmit rnd now origin urlMap url customCode validity2)"
    by (simp only: handleSubmit_outcome)
qed

theorem expiry_of_created_record_witness:
  "parseInt '''' = NaN \<and> \<bar>1000 :: int\<bar> + 30 * 60000 < 2 ^ 53 \<and>
   handleSubmit counting 1000 ''http://localhost:3000'' registry0 ''https://a.com'' ''abcd'' '''' =
     Some (Inr ''http://localhost:3000/abcd'',
           registry0(''abcd'' \<mapsto> \<lparr>originalUrl = ''https://a.com'', expiry = Finite 1801000\<rparr>))"
proof -
  have absent: "registry0 ''abcd'' = None"
    by (simp add: registry0_def)
  have small: "\<bar>1000 :: int\<bar> + 30 * 60000 < 2 ^ 53"
    by simp
  define stored where "stored = registry0(''abcd'' \<mapsto>
    \<lparr>originalUrl = ''https://a.com'', expiry = expiry_after 1000 (validityMinutes '''')\<rparr>)"
  have created: "handleSubmit counting 1000 ''http://localhost:3000'' registry0 ''https://a.com'' ''abcd'' '''' =
      Some (Inr ''http://localhost:3000/abcd'', stored)"
    using handleSubmit_custom_fresh [where url = "''https://a.com''" and c = "''abcd''"
        and urlMap = registry0 and rnd = counting and now = 1000
        and origin = "''http://localhost:3000''" and validity = "''''"]
      matches_url_example matches_shortcode_abcd abcd_not_inherited absent
    by (simp add: stored_def)
  from expiry_of_created_record [of counting 1000 "''http://localhost:3000''" registry0
      "''https://a.com''" "''abcd''" "''''" "''http://localhost:3000/abcd''" stored "''''",
      THEN conjunct1, rule_format, OF created]
  obtain code where
    code: "''http://localhost:3000/abcd'' = ''http://localhost:3000'' @ ''/'' @ code"
    and default: "(parseInt '''' = NaN \<or> parseInt '''' = Finite 0) \<and> \<bar>1000 :: int\<bar> + 30 * 60000 < 2 ^ 53 \<longrightarrow>
      stored = registry0(code \<mapsto> \<lparr>originalUrl = ''https://a.com'', expiry = Finite (1000 + 30 * 60000)\<rparr>)"
    by blast
  from code have "code = ''abcd''"
    by simp
  with default parseInt_empty small
  have "stored = registry0(''abcd'' \<mapsto> \<lparr>originalUrl = ''https://a.com'', expiry = Finite 1801000\<rparr>)"
    by simp
  with created parseInt_empty small show ?thesis
    by (simp only: simp_thms)
qed

text \<open>
  The claim C2 as it is stated fails in two ways. The validity \<open>-5\<close> parses to \<open>-5\<close>,
  which is truthy at line 44 and is not replaced by 30: the record stored at the instant
  1000 expires at \<open>1000 - 300000\<close>, before it was created. And the validity
  \<open>150119987579017\<close> is kept as it is, but line 202 rounds the product and the sum: the
  expiry stored at the instant 1000 is not the instant plus 60000 ms times the minutes.
\<close>

theorem stored_expiry_counterexample:
  "parseInt ''-5'' = Finite (- 5) \<and>
   handleSubmit counting 1000 ''http://localhost:3000'' Map.empty ''https://a.com'' ''abcd'' ''-5'' =
     Some (Inr ''http://localhost:3000/abcd'',
           Map.empty(''abcd'' \<mapsto> \<lparr>originalUrl = ''https://a.com'', expiry = Finite (- 299000)\<rparr>)) \<and>
   (- 299000 :: int) \<noteq> 1000 + 30 * 60000 \<and>
   parseInt ''150119987579017'' = Finite 150119987579017 \<and>
   handleSubmit counting 1000 ''http://localhost:3000'' Map.empty ''https://a.com'' ''abcd''
       ''150119987579017'' =
     Some (Inr ''http://localhost:3000/abcd'',
           Map.empty(''abcd'' \<mapsto>
             \<lparr>originalUrl = ''https://a.com'', expiry = Finite 9007199254741020672\<rparr>)) \<and>
   (9007199254741020672 :: int) \<noteq> 1000 + 150119987579017 * 60000"
proof -
  have "validityMinutes ''-5'' = Finite (- 5)"
    by (simp add: validityMinutes_parsed [OF parseInt_minus_5])
  moreover have "expiry_after 1000 (Finite (- 5)) = Finite (- 299000)"
    using expiry_after_exact [of 1000 "- 5"] by simp
  ultimately have negative:
    "handleSubmit counting 1000 ''http://localhost:3000'' Map.empty ''https://a.com'' ''abcd'' ''-5'' =
     Some (Inr ''http://localhost:3000/abcd'',
           Map.empty(''abcd'' \<mapsto> \<lparr>originalUrl = ''https://a.com'', expiry = Finite (- 299000)\<rparr>))"
    using handleSubmit_custom_fresh [where url = "''https://a.com''" and c = "''abcd''"
        and urlMap = Map.empty and rnd = counting and now = 1000
        and origin = "''http://localhost:3000''" and validity = "''-5''"]
      matches_url_example matches_shortcode_abcd abcd_not_inherited
    by simp
  have "validityMinutes ''150119987579017'' = Finite 150119987579017"
    by (simp add: validityMinutes_parsed [OF parseInt_large])
  moreover have "expiry_after 1000 (Finite 150119987579017) = Finite 9007199254741020672"
    by (simp add: round_example_2 round_example_3 round_example_4)
  ultimately have large:
    "handleSubmit counting 1000 ''http://localhost:3000'' Map.empty ''https://a.com'' ''abcd''
       ''150119987579017'' =
     Some (Inr ''http://localhost:3000/abcd'',
           Map.empty(''abcd'' \<mapsto>
             \<lparr>originalUrl = ''https://a.com'', expiry = Finite 9007199254741020672\<rparr>))"
    using handleSubmit_custom_fresh [where url = "''https://a.com''" and c = "''abcd''"
        and urlMap = Map.empty and rnd = counting and now = 1000
        and origin = "''http://localhost:3000''" and validity = "''150119987579017''"]
      matches_url_example matches_shortcode_abcd abcd_not_inherited
    by simp
  from negative large parseInt_minus_5 parseInt_large show ?thesis
    by simp
qed

text \<open>
  C4: the code departs from the claim. \<open>constructor\<close> matches the pattern of a custom
  code and is not stored in the empty registry, yet line 190 reads
  \<open>urlMap['constructor']\<close>, which is the inherited function \<open>Object\<close>, and throws
  \<open>Custom shortcode already exists\<close>. The two lemmas \<open>handleSubmit_custom_taken\<close> and
  \<open>handleSubmit_custom_fresh\<close> are what holds of the claim.
\<close>

theorem inherited_name_refused:
  "matches_shortcode ''constructor'' \<and> Map.empty ''constructor'' = None \<and>
   handleSubmit rnd now origin Map.empty ''https://a.com'' ''constructor'' validity =
     Some (Inl DuplicateShortcode, Map.empty)"
  by (simp add: handleSubmit_def handleShorten_def createShortCode_def get_prop_def
      object_prototype_keys_def matches_url_example matches_shortcode_def code_char_def)

subsection \<open>Generated codes\<close>

text \<open>
  C5: when no custom code is given, a creation that returns has stored its record under
  the code the loop returned; that code has six characters and was not a key of the
  registry, and it is the one in the short URL. The creation does return, for a valid URL,
  as soon as one draw of \<open>nanoid\<close> is not a key of the registry.
\<close>

theorem generated_code_fresh:
  "(handleSubmit rnd now origin urlMap url '''' validity = Some (Inr shortUrl, urlMap') \<longrightarrow>
      (\<exists>code. generate rnd urlMap 0 = Some code \<and> length code = 6 \<and> urlMap code = None \<and>
         \<not> truthy (get_prop urlMap code) \<and> shortUrl = origin @ ''/'' @ code \<and>
         urlMap' = urlMap(code \<mapsto>
           \<lparr>originalUrl = url, expiry = expiry_after now (validityMinutes validity)\<rparr>))) \<and>
   (matches_url url \<and> urlMap (nanoid 6 rnd (6 * k)) = None \<longrightarrow>
      (\<exists>shortUrl urlMap'.
         handleSubmit rnd now origin urlMap url '''' validity = Some (Inr shortUrl, urlMap')))"
proof (intro conjI impI)
  assume "handleSubmit rnd now origin urlMap url '''' validity = Some (Inr shortUrl, urlMap')"
  from handleSubmit_Inr [OF this] obtain code where
    code: "createShortCode rnd urlMap '''' = Some (Inr code)"
      "shortUrl = origin @ ''/'' @ code"
      "urlMap' = urlMap(code \<mapsto>
         \<lparr>originalUrl = url, expiry = expiry_after now (validityMinutes validity)\<rparr>)"
    by blast
  from code(1) have drawn: "generate rnd urlMap 0 = Some code"
    by (auto simp: createShortCode_def)
  from generate_Some [OF drawn] obtain j where j: "code = nanoid 6 rnd (0 + 6 * j)" "urlMap code = None"
    by blast
  from j(1) have six: "length code = 6"
    by (simp add: length_nanoid)
  with j(2) have "\<not> truthy (get_prop urlMap code)"
    by (simp add: truthy_get_prop_six)
  with drawn six j(2) code(2,3)
  show "\<exists>code. generate rnd urlMap 0 = Some code \<and> length code = 6 \<and> urlMap code = None \<and>
         \<not> truthy (get_prop urlMap code) \<and> shortUrl = origin @ ''/'' @ code \<and>
         urlMap' = urlMap(code \<mapsto>
           \<lparr>originalUrl = url, expiry = expiry_after now (validityMinutes validity)\<rparr>)"
    by (intro exI [of _ code] conjI)
next
  assume fresh: "matches_url url \<and> urlMap (nanoid 6 rnd (6 * k)) = None"
  then have "urlMap (nanoid 6 rnd (0 + 6 * k)) = None"
    by simp
  with generate_returns [where urlMap = urlMap and rnd = rnd and i = 0 and k = k]
  obtain code where "generate rnd urlMap 0 = Some code"
    by blast
  with fresh show "\<exists>shortUrl urlMap'.
      handleSubmit rnd now origin urlMap url '''' validity = Some (Inr shortUrl, urlMap')"
    by (simp add: handleSubmit_generated)
qed

theorem generated_code_fresh_witness:
  "matches_url ''https://a.com'' \<and> registry0 (nanoid 6 counting (6 * 1)) = None \<and>
   handleSubmit counting 1000 ''http://localhost:3000'' registry0 ''https://a.com'' '''' ''30'' =
     Some (Inr ''http://localhost:3000/om-26T'',
           registry0(''om-26T'' \<mapsto> \<lparr>originalUrl = ''https://a.com'', expiry = Finite 1801000\<rparr>)) \<and>
   length ''om-26T'' = 6 \<and> registry0 ''om-26T'' = None"
proof -
  note inst = generated_code_fresh [of counting 1000 "''http://localhost:3000''" registry0
      "''https://a.com''" "''30''" _ _ 1]
  have fresh: "registry0 (nanoid 6 counting (6 * 1)) = None"
    by (simp add: nanoid_counting_6 registry0_def)
  from inst [THEN conjunct2] matches_url_example fresh obtain shortUrl urlMap' where
    created: "handleSubmit counting 1000 ''http://localhost:3000'' registry0 ''https://a.com'' '''' ''30'' =
      Some (Inr shortUrl, urlMap')"
    by blast
  from inst [THEN conjunct1, of shortUrl urlMap'] created obtain code where
    code: "generate counting registry0 0 = Some code" "length code = 6" "registry0 code = None"
      "shortUrl = ''http://localhost:3000'' @ ''/'' @ code"
      "urlMap' = registry0(code \<mapsto>
         \<lparr>originalUrl = ''https://a.com'', expiry = expiry_after 1000 (validityMinutes ''30'')\<rparr>)"
    by blast
  from code(1) have "code = ''om-26T''"
    by (simp add: generate_counting_registry0)
  moreover have "expiry_after 1000 (Finite 30) = Finite 1801000"
    using expiry_after_exact [of 1000 30] by simp
  ultimately show ?thesis
    using code created matches_url_example fresh by (simp add: validityMinutes_30)
qed

text \<open>
  C10: the empty string as custom code is no custom code. It does not match the pattern
  of a custom code, yet the creation never fails with \<open>InvalidShortcode\<close>:
  \<open>createShortCode\<close> runs the loop, and where the first draw is not a key of the registry
  the record is stored under that draw of six characters.
\<close>

theorem empty_custom_code_generates:
  "\<not> matches_shortcode '''' \<and>
   createShortCode rnd urlMap '''' = map_option Inr (generate rnd urlMap 0) \<and>
   handleSubmit rnd now origin urlMap url '''' validity \<noteq> Some (Inl InvalidShortcode, urlMap') \<and>
   (matches_url url \<and> urlMap (nanoid 6 rnd 0) = None \<longrightarrow>
      length (nanoid 6 rnd 0) = 6 \<and>
      handleSubmit rnd now origin urlMap url '''' validity =
        Some (Inr (origin @ ''/'' @ nanoid 6 rnd 0),
              urlMap(nanoid 6 rnd 0 \<mapsto>
                \<lparr>originalUrl = url, expiry = expiry_after now (validityMinutes validity)\<rparr>)))"
proof (intro conjI impI)
  show "\<not> matches_shortcode ''''"
    by (simp add: matches_shortcode_def)
  show "createShortCode rnd urlMap '''' = map_option Inr (generate rnd urlMap 0)"
    by (simp add: createShortCode_def)
  show "handleSubmit rnd now origin urlMap url '''' validity \<noteq> Some (Inl InvalidShortcode, urlMap')"
    by (auto simp: handleSubmit_def handleShorten_def createShortCode_def
        split: option.splits sum.splits)
next
  assume "matches_url url \<and> urlMap (nanoid 6 rnd 0) = None"
  then show "length (nanoid 6 rnd 0) = 6"
    by (simp add: length_nanoid)
next
  assume fresh: "matches_url url \<and> urlMap (nanoid 6 rnd 0) = None"
  then have "generate rnd urlMap 0 = Some (nanoid 6 rnd (0 + 6 * 0))"
    by (intro generate_first) simp_all
  with fresh show "handleSubmit rnd now origin urlMap url '''' validity =
        Some (Inr (origin @ ''/'' @ nanoid 6 rnd 0),
              urlMap(nanoid 6 rnd 0 \<mapsto>
                \<lparr>originalUrl = url, expiry = expiry_after now (validityMinutes validity)\<rparr>))"
    by (simp add: handleSubmit_generated)
qed

theorem empty_custom_code_generates_witness:
  "matches_url ''https://example.com'' \<and> Map.empty (nanoid 6 counting 0) = None \<and>
   handleSubmit counting 0 ''http://localhost:3000'' Map.empty ''https://example.com'' '''' ''30'' =
     Some (Inr ''http://localhost:3000/useand'',
           Map.empty(''useand'' \<mapsto> \<lparr>originalUrl = ''https://example.com'', expiry = Finite 1800000\<rparr>))"
proof -
  have "expiry_after 0 (Finite 30) = Finite 1800000"
    using expiry_after_exact [of 0 30] by simp
  with empty_custom_code_generates [of counting Map.empty 0 "''http://localhost:3000''"
      "''https://example.com''" "''30''", THEN conjunct2, THEN conjunct2, THEN conjunct2]
    matches_url_example_com
  show ?thesis
    by (simp add: nanoid_counting_0 validityMinutes_30)
qed

subsection \<open>Resolution in \<open>Redirector\<close>\<close>

text \<open>
  C1: the comparison with the expiry is strict. For a record whose expiry equals the
  current instant, a run of the effect sets no message, arms the redirect to the stored
  URL and leaves the registry as it is, so that resolving its code shows \<open>Redirecting\<close> and
  the effect does not run again; and \<open>Expired\<close> is shown, by the first run of the effect
  or once the view has settled, only for a stored record whose expiry is strictly before
  the current instant (a finite instant before it, or minus infinity).
\<close>

theorem expiry_boundary_strict:
  "(urlMap code = Some r \<and> expiry r = Finite now \<longrightarrow>
      Redirector_effect now code urlMap v =
        (v\<lparr>timers := timers v @ [(now + 1000, Some (originalUrl r))]\<rparr>, urlMap) \<and>
      resolve now later code urlMap =
        (\<lparr>message = Redirecting, timers = [(now + 1000, Some (originalUrl r))]\<rparr>, urlMap)) \<and>
   (message (fst (Redirector_effect now code urlMap Redirector_mount)) = Expired \<or>
    message (fst (resolve now later code urlMap)) = Expired \<longrightarrow>
      (\<exists>r'. urlMap code = Some r' \<and>
         (expiry r' = NegInfinity \<or> (\<exists>e. expiry r' = Finite e \<and> e < now))))"
proof (intro conjI impI)
  assume boundary: "urlMap code = Some r \<and> expiry r = Finite now"
  then have entry: "get_prop urlMap code = Entry r"
    by (simp add: get_prop_def)
  with boundary show "Redirector_effect now code urlMap v =
      (v\<lparr>timers := timers v @ [(now + 1000, Some (originalUrl r))]\<rparr>, urlMap)"
    by (simp add: Redirector_effect_def)
  from entry boundary have "\<not> calls_removeExpired now code urlMap"
    by (simp add: calls_removeExpired_def)
  then have "resolve now later code urlMap = Redirector_effect now code urlMap Redirector_mount"
    by (rule resolve_once)
  with entry boundary show "resolve now later code urlMap =
      (\<lparr>message = Redirecting, timers = [(now + 1000, Some (originalUrl r))]\<rparr>, urlMap)"
    by (simp add: Redirector_effect_def Redirector_mount_def)
next
  assume shown: "message (fst (Redirector_effect now code urlMap Redirector_mount)) = Expired \<or>
    message (fst (resolve now later code urlMap)) = Expired"
  have "calls_removeExpired now code urlMap"
  proof (rule ccontr)
    assume quiet: "\<not> calls_removeExpired now code urlMap"
    then have "resolve now later code urlMap = Redirector_effect now code urlMap Redirector_mount"
      by (rule resolve_once)
    with shown have "message (fst (Redirector_effect now code urlMap Redirector_mount)) = Expired"
      by simp
    with quiet show False
      by (auto simp: calls_removeExpired_def Redirector_effect_def Redirector_mount_def
          split: jsval.splits if_splits)
  qed
  then obtain r' where r': "urlMap code = Some r'" "js_greater (Finite now) (expiry r')"
    by (auto simp: calls_removeExpired_def get_prop_def split: option.splits if_splits)
  from r'(2) have "expiry r' = NegInfinity \<or> (\<exists>e. expiry r' = Finite e \<and> e < now)"
    by (cases "expiry r'") simp_all
  with r'(1) show "\<exists>r'. urlMap code = Some r' \<and>
      (expiry r' = NegInfinity \<or> (\<exists>e. expiry r' = Finite e \<and> e < now))"
    by blast
qed

theorem expiry_boundary_strict_witness:
  "registry0 ''useand'' = Some \<lparr>originalUrl = ''https://a.com'', expiry = Finite 5\<rparr> \<and>
   resolve 5 5 ''useand'' registry0 =
     (\<lparr>message = Redirecting, timers = [(1005, Some ''https://a.com'')]\<rparr>, registry0) \<and>
   message (fst (Redirector_effect 6 ''useand'' registry0 Redirector_mount)) = Expired \<and>
   (\<exists>r'. registry0 ''useand'' = Some r' \<and>
      (expiry r' = NegInfinity \<or> (\<exists>e. expiry r' = Finite e \<and> e < 6)))"
proof -
  have stored: "registry0 ''useand'' = Some \<lparr>originalUrl = ''https://a.com'', expiry = Finite 5\<rparr>"
    by (simp add: registry0_def)
  have late: "message (fst (Redirector_effect 6 ''useand'' registry0 Redirector_mount)) = Expired"
    by (simp add: Redirector_effect_def Redirector_mount_def get_prop_def stored)
  note at_5 = expiry_boundary_strict [of registry0 "''useand''"
      "\<lparr>originalUrl = ''https://a.com'', expiry = Finite 5\<rparr>" 5 Redirector_mount 5, THEN conjunct1]
  note at_6 = expiry_boundary_strict [of registry0 "''useand''"
      "\<lparr>originalUrl = ''https://a.com'', expiry = Finite 5\<rparr>" 6 Redirector_mount 6, THEN conjunct2]
  from at_5 stored have "resolve 5 5 ''useand'' registry0 =
      (\<lparr>message = Redirecting, timers = [(1005, Some ''https://a.com'')]\<rparr>, registry0)"
    by simp
  moreover from at_6 late have "\<exists>r'. registry0 ''useand'' = Some r' \<and>
      (expiry r' = NegInfinity \<or> (\<exists>e. expiry r' = Finite e \<and> e < 6))"
    by blast
  ultimately show ?thesis
    using stored late by (intro conjI)
qed

text \<open>
  C6: the code departs from the claim. A record created at the instant \<open>T\<close> under the
  custom code \<open>mycode\<close> with the validity 1 expires at \<open>T + 60000\<close>, and at \<open>T + 120000\<close>
  the first run of the effect sets the message \<open>Expired\<close> (line 126) and removes the code
  (line 128). The removal changes \<open>urlMap\<close>, on which the effect depends (line 137), so
  the effect runs again at once, finds no record and overwrites the message: the
  resolution at \<open>T + 120000\<close> itself ends on \<open>NotFound\<close>, not on \<open>Expired\<close>. \<open>T\<close> is an
  instant that \<open>Date.now()\<close> can return, at most 8640000000000000 ms from the epoch.
\<close>

theorem expired_message_overwritten:
  assumes "urlMap ''mycode'' = None" and "\<bar>T\<bar> \<le> 8640000000000000"
  shows "\<exists>m1. handleSubmit rnd T origin urlMap ''https://a.com'' ''mycode'' ''1'' =
                 Some (Inr (origin @ ''/mycode''), m1) \<and>
               m1 ''mycode'' = Some \<lparr>originalUrl = ''https://a.com'', expiry = Finite (T + 60000)\<rparr> \<and>
               Redirector_effect (T + 120000) ''mycode'' m1 Redirector_mount =
                 (\<lparr>message = Expired, timers = []\<rparr>, urlMap) \<and>
               calls_removeExpired (T + 120000) ''mycode'' m1 \<and>
               resolve (T + 120000) later ''mycode'' m1 =
                 (\<lparr>message = NotFound, timers = []\<rparr>, urlMap)"
proof -
  define m1 where
    "m1 = urlMap(''mycode'' \<mapsto> \<lparr>originalUrl = ''https://a.com'', expiry = Finite (T + 60000)\<rparr>)"
  from assms(2) have "\<bar>T\<bar> + \<bar>1\<bar> * 60000 < (2::int) ^ 53"
    by simp
  then have "expiry_after T (Finite 1) = Finite (T + 1 * 60000)"
    by (rule expiry_after_exact)
  then have created: "handleSubmit rnd T origin urlMap ''https://a.com'' ''mycode'' ''1'' =
      Some (Inr (origin @ ''/mycode''), m1)"
    using handleSubmit_custom_fresh [where url = "''https://a.com''" and c = "''mycode''"
        and urlMap = urlMap and rnd = rnd and now = T and origin = origin and validity = "''1''"]
      matches_url_example matches_shortcode_mycode assms(1) mycode_not_inherited
    by (simp add: m1_def validityMinutes_1)
  have stored: "m1 ''mycode'' = Some \<lparr>originalUrl = ''https://a.com'', expiry = Finite (T + 60000)\<rparr>"
    by (simp add: m1_def)
  have removed: "removeExpired ''mycode'' m1 = urlMap"
    using assms(1) by (auto simp: removeExpired_def m1_def)
  have calls: "calls_removeExpired (T + 120000) ''mycode'' m1"
    by (simp add: calls_removeExpired_def get_prop_def stored)
  have first: "Redirector_effect (T + 120000) ''mycode'' m1 Redirector_mount =
      (\<lparr>message = Expired, timers = []\<rparr>, urlMap)"
    by (simp add: Redirector_effect_removes [OF calls] removed Redirector_mount_def)
  have gone: "get_prop urlMap ''mycode'' = Undefined"
    using assms(1) mycode_not_inherited by (simp add: get_prop_def)
  have settled: "resolve (T + 120000) later ''mycode'' m1 =
      (\<lparr>message = NotFound, timers = []\<rparr>, urlMap)"
    by (simp add: resolve_twice [OF calls] removed Redirector_effect_def gone Redirector_mount_def)
  from created stored first calls settled show ?thesis
    by blast
qed

theorem expired_message_overwritten_witness:
  "registry0 ''mycode'' = None \<and> \<bar>0 :: int\<bar> \<le> 8640000000000000 \<and>
   handleSubmit counting 0 ''http://localhost:3000'' registry0 ''https://a.com'' ''mycode'' ''1'' =
     Some (Inr ''http://localhost:3000/mycode'',
           registry0(''mycode'' \<mapsto> \<lparr>originalUrl = ''https://a.com'', expiry = Finite 60000\<rparr>)) \<and>
   resolve 120000 120001 ''mycode''
       (registry0(''mycode'' \<mapsto> \<lparr>originalUrl = ''https://a.com'', expiry = Finite 60000\<rparr>)) =
     (\<lparr>message = NotFound, timers = []\<rparr>, registry0)"
proof -
  have absent: "registry0 ''mycode'' = None"
    by (simp add: registry0_def)
  have instant: "\<bar>0 :: int\<bar> \<le> 8640000000000000"
    by simp
  from expired_message_overwritten [where urlMap = registry0 and rnd = counting and T = 0
      and origin = "''http://localhost:3000''" and later = 120001] absent instant
  obtain m1 where
    created: "handleSubmit counting 0 ''http://localhost:3000'' registry0 ''https://a.com'' ''mycode'' ''1'' =
       Some (Inr (''http://localhost:3000'' @ ''/mycode''), m1)"
    and stored: "m1 ''mycode'' = Some \<lparr>originalUrl = ''https://a.com'', expiry = Finite (0 + 60000)\<rparr>"
    and settled: "resolve (0 + 120000) 120001 ''mycode'' m1 =
      (\<lparr>message = NotFound, timers = []\<rparr>, registry0)"
    by blast
  have "expiry_after 0 (Finite 1) = Finite 60000"
    using expiry_after_exact [of 0 1] by simp
  then have m1: "m1 = registry0(''mycode'' \<mapsto> \<lparr>originalUrl = ''https://a.com'', expiry = Finite 60000\<rparr>)"
    using created handleSubmit_custom_fresh [where url = "''https://a.com''" and c = "''mycode''"
        and urlMap = registry0 and rnd = counting and now = 0 and origin = "''http://localhost:3000''"
        and validity = "''1''"]
      matches_url_example matches_shortcode_mycode absent mycode_not_inherited
    by (simp add: validityMinutes_1)
  from absent instant created settled show ?thesis
    by (simp add: m1)
qed

text \<open>
  C8, as amended: when the effect runs again for a new code, it does for the registry and
  the timers what the first run in a view just mounted does for that code, and it cancels
  nothing: the timers armed before are all still pending, and a navigation that they would
  perform at an instant \<open>t\<close> is still performed. The message is set only when the new code
  is not found or expired.
\<close>

theorem timers_never_cancelled:
  "timers (fst (Redirector_effect now code urlMap v)) =
     timers v @ timers (fst (Redirector_effect now code urlMap Redirector_mount)) \<and>
   snd (Redirector_effect now code urlMap v) =
     snd (Redirector_effect now code urlMap Redirector_mount) \<and>
   message (fst (Redirector_effect now code urlMap v)) =
     (case message (fst (Redirector_effect now code urlMap Redirector_mount)) of
        Redirecting \<Rightarrow> message v | NotFound \<Rightarrow> NotFound | Expired \<Rightarrow> Expired) \<and>
   (navigated t (timers v) = Some target \<longrightarrow>
      navigated t (timers (fst (Redirector_effect now code urlMap v))) = Some target)"
proof -
  have grows: "timers (fst (Redirector_effect now code urlMap v)) =
      timers v @ timers (fst (Redirector_effect now code urlMap Redirector_mount))"
    by (simp add: Redirector_effect_def Redirector_mount_def split: jsval.splits)
  have registry: "snd (Redirector_effect now code urlMap v) =
      snd (Redirector_effect now code urlMap Redirector_mount)"
    by (simp add: Redirector_effect_def split: jsval.splits)
  have shown: "message (fst (Redirector_effect now code urlMap v)) =
     (case message (fst (Redirector_effect now code urlMap Redirector_mount)) of
        Redirecting \<Rightarrow> message v | NotFound \<Rightarrow> NotFound | Expired \<Rightarrow> Expired)"
    by (simp add: Redirector_effect_def Redirector_mount_def split: jsval.splits)
  have fires: "navigated t (timers (fst (Redirector_effect now code urlMap v))) = Some target"
    if "navigated t (timers v) = Some target"
    unfolding grows using that by (rule navigated_append)
  from grows registry shown fires show ?thesis
    by blast
qed

theorem timers_never_cancelled_witness:
  "navigated 1000 (timers (fst (Redirector_effect 0 ''aaaa'' registry_ab Redirector_mount))) =
     Some (Some ''https://a.com'') \<and>
   message (fst (Redirector_effect 300 ''zzzz'' registry_ab
       (fst (Redirector_effect 0 ''aaaa'' registry_ab Redirector_mount)))) = NotFound \<and>
   navigated 1000 (timers (fst (Redirector_effect 300 ''zzzz'' registry_ab
       (fst (Redirector_effect 0 ''aaaa'' registry_ab Redirector_mount))))) =
     Some (Some ''https://a.com'')"
proof -
  have armed: "navigated 1000 (timers (fst (Redirector_effect 0 ''aaaa'' registry_ab Redirector_mount))) =
      Some (Some ''https://a.com'')"
    by (simp add: Redirector_effect_def Redirector_mount_def get_prop_def registry_ab_def)
  have unknown: "message (fst (Redirector_effect 300 ''zzzz'' registry_ab Redirector_mount)) = NotFound"
    by (simp add: Redirector_effect_def Redirector_mount_def get_prop_def registry_ab_def
        object_prototype_keys_def)
  note inst = timers_never_cancelled [of 300 "''zzzz''" registry_ab
      "fst (Redirector_effect 0 ''aaaa'' registry_ab Redirector_mount)" 1000 "Some ''https://a.com''"]
  from inst [THEN conjunct2, THEN conjunct2, THEN conjunct1] unknown
  have shown: "message (fst (Redirector_effect 300 ''zzzz'' registry_ab
      (fst (Redirector_effect 0 ''aaaa'' registry_ab Redirector_mount)))) = NotFound"
    by simp
  from inst [THEN conjunct2, THEN conjunct2, THEN conjunct2] armed
  have fires: "navigated 1000 (timers (fst (Redirector_effect 300 ''zzzz'' registry_ab
      (fst (Redirector_effect 0 ''aaaa'' registry_ab Redirector_mount))))) = Some (Some ''https://a.com'')"
    by (rule mp)
  from armed shown fires show ?thesis
    by (intro conjI)
qed

text \<open>
  The claim C8 as it is stated, that the timer of the prior code is cancelled, fails: the
  view resolves \<open>aaaa\<close> at the instant 0, the code changes to \<open>bbbb\<close> at 500, and both
  timers are pending afterwards; at 1000 the timer of \<open>aaaa\<close> fires and the browser leaves
  for the URL of \<open>aaaa\<close>.
\<close>

theorem prior_timer_counterexample:
  "fst (Redirector_effect 500 ''bbbb'' registry_ab
      (fst (Redirector_effect 0 ''aaaa'' registry_ab Redirector_mount))) =
     \<lparr>message = Redirecting,
      timers = [(1000, Some ''https://a.com''), (1500, Some ''https://b.com'')]\<rparr> \<and>
   navigated 1000 (timers (fst (Redirector_effect 500 ''bbbb'' registry_ab
       (fst (Redirector_effect 0 ''aaaa'' registry_ab Redirector_mount))))) =
     Some (Some ''https://a.com'')"
  by (simp add: Redirector_effect_def Redirector_mount_def get_prop_def registry_ab_def)

end
